theory Spec2Isabelle
  imports Main
begin

section \<open>JavaScript values used by \<open>app.js\<close>\<close>

text \<open>
  A JavaScript string is modelled as an Isabelle \<^typ>\<open>string\<close>, one \<^typ>\<open>char\<close> per code
  unit (code units above \<open>0xFF\<close> are outside the model). A property that may be
  \<open>undefined\<close> is a \<^typ>\<open>string option\<close>, with \<^term>\<open>None\<close> for \<open>undefined\<close>.
\<close>

datatype js_error =
    Error string        \<comment> \<open>\<open>throw new Error(msg)\<close>\<close>
  | TypeError string    \<comment> \<open>reading the named property of \<open>undefined\<close>\<close>
  | RangeError string   \<comment> \<open>\<open>listen\<close> refusing the named port\<close>
  | Rejection string    \<comment> \<open>the reason the provider's promise was rejected with\<close>

text \<open>
  The operator \<open>a || b\<close> on two possibly undefined strings: \<open>a\<close> when \<open>a\<close> is truthy,
  otherwise \<open>b\<close>. Among strings only the empty string is falsy.
\<close>

definition js_or :: "string option \<Rightarrow> string option \<Rightarrow> string option" where
  "js_or a b = (case a of None \<Rightarrow> b | Some s \<Rightarrow> if s = [] then b else Some s)"

text \<open>String concatenation \<open>"..." + v\<close> renders \<open>undefined\<close> as the text \<open>undefined\<close>.\<close>

definition to_js_string :: "string option \<Rightarrow> string" where
  "to_js_string v = (case v of None \<Rightarrow> ''undefined'' | Some s \<Rightarrow> s)"

subsection \<open>\<open>JSON.stringify\<close>\<close>

definition hex_digit :: "nat \<Rightarrow> char" where
  "hex_digit n = ''0123456789abcdef'' ! (n mod 16)"

text \<open>
  \<open>QuoteJSONString\<close> of ECMA-262: the two-character escapes, \<open>\u00xx\<close> for the other
  control characters, every other code unit as it is.
\<close>

definition quote_char :: "char \<Rightarrow> string" where
  "quote_char c =
     (if c = CHR 0x08 then [CHR 0x5C, CHR ''b'']
      else if c = CHR 0x09 then [CHR 0x5C, CHR ''t'']
      else if c = CHR 0x0A then [CHR 0x5C, CHR ''n'']
      else if c = CHR 0x0C then [CHR 0x5C, CHR ''f'']
      else if c = CHR 0x0D then [CHR 0x5C, CHR ''r'']
      else if c = CHR 0x22 then [CHR 0x5C, CHR 0x22]
      else if c = CHR 0x5C then [CHR 0x5C, CHR 0x5C]
      else if of_char c < (32::nat)
        then [CHR 0x5C, CHR ''u'', CHR ''0'', CHR ''0'',
              hex_digit (of_char c div 16), hex_digit (of_char c)]
      else [c])"

definition quote_json_string :: "string \<Rightarrow> string" where
  "quote_json_string s = [CHR 0x22] @ concat (map quote_char s) @ [CHR 0x22]"

fun join :: "string \<Rightarrow> string list \<Rightarrow> string" where
  "join sep [] = []"
| "join sep [x] = x"
| "join sep (x # y # ys) = x @ sep @ join sep (y # ys)"

section \<open>Data model\<close>

text \<open>The nested \<open>start\<close> / \<open>end\<close> object of a provider event.\<close>

record event_time =
  dateTime :: "string option"
  date :: "string option"

text \<open>
  A provider event, as far as \<open>fetchEvents\<close> reads it. \<open>event.start\<close> and \<open>event.end\<close> are
  dereferenced without a guard, so each is optional here and its absence is a
  \<open>TypeError\<close> of the model.
\<close>

record raw_event =
  ev_start :: "event_time option"
  ev_end :: "event_time option"
  ev_summary :: "string option"
  ev_hangoutLink :: "string option"
  ev_htmlLink :: "string option"
  ev_location :: "string option"
  ev_description :: "string option"

text \<open>The object \<open>calEvent\<close> built for each provider event.\<close>

record cal_event =
  ce_start :: "string option"
  ce_end :: "string option"
  ce_summary :: "string option"
  ce_hangoutLink :: "string option"
  ce_htmlLink :: "string option"
  ce_location :: "string option"
  ce_description :: "string option"

text \<open>
  What the variable \<open>calendarEvents\<close> can hold once assigned: \<open>fetchEvents\<close> resolves
  either with the array object \<open>calEvents\<close> or with a string made by \<open>JSON.stringify\<close>.
  The variable itself is a \<open>cache_value option\<close>, \<^term>\<open>None\<close> being \<open>undefined\<close>.
\<close>

datatype cache_value =
    JsArray "cal_event list"
  | JsString string

section \<open>The event transformer (lines 132 to 139 of \<open>app.js\<close>)\<close>

definition transformEvent :: "raw_event \<Rightarrow> js_error + cal_event" where
  "transformEvent event =
     (case ev_start event of
        None \<Rightarrow> Inl (TypeError ''dateTime'')
      | Some st \<Rightarrow>
          (case ev_end event of
             None \<Rightarrow> Inl (TypeError ''dateTime'')
           | Some en \<Rightarrow>
               Inr \<lparr> ce_start = js_or (dateTime st) (date st),
                     ce_end = js_or (dateTime en) (date en),
                     ce_summary = ev_summary event,
                     ce_hangoutLink = ev_hangoutLink event,
                     ce_htmlLink = ev_htmlLink event,
                     ce_location = ev_location event,
                     ce_description = ev_description event \<rparr>))"

text \<open>The text \<open>eventDetail\<close> sent to the debug log for each event.\<close>

definition eventDetail :: "cal_event \<Rightarrow> string" where
  "eventDetail calEvent =
     [CHR 0x0A] @ ''Summary: '' @ to_js_string (ce_summary calEvent) @
     [CHR 0x0A] @ ''Hangout Link: '' @ to_js_string (ce_hangoutLink calEvent) @
     [CHR 0x0A] @ ''HTML Link: '' @ to_js_string (ce_htmlLink calEvent) @
     [CHR 0x0A] @ ''Location: '' @ to_js_string (ce_location calEvent) @
     [CHR 0x0A] @ ''Start: '' @ to_js_string (ce_start calEvent) @
     [CHR 0x0A] @ ''End: '' @ to_js_string (ce_end calEvent) @
     [CHR 0x0A] @ ''Description: '' @ to_js_string (ce_description calEvent) @
     [CHR 0x0A]"

text \<open>
  The members \<open>JSON.stringify\<close> writes for a \<open>calEvent\<close>: its properties in the order
  they were assigned, a property whose value is \<open>undefined\<close> being skipped.
\<close>

definition json_members :: "cal_event \<Rightarrow> (string \<times> string) list" where
  "json_members calEvent =
     List.map_filter (\<lambda>(k, v). map_option (\<lambda>s. (k, s)) v)
       [(''start'', ce_start calEvent),
        (''end'', ce_end calEvent),
        (''summary'', ce_summary calEvent),
        (''hangoutLink'', ce_hangoutLink calEvent),
        (''htmlLink'', ce_htmlLink calEvent),
        (''location'', ce_location calEvent),
        (''description'', ce_description calEvent)]"

definition stringify_event :: "cal_event \<Rightarrow> string" where
  "stringify_event calEvent =
     ''{'' @ join '','' (map (\<lambda>(k, s). quote_json_string k @ '':'' @ quote_json_string s)
                          (json_members calEvent)) @ ''}''"

fun JSON_stringify :: "cache_value \<Rightarrow> string" where
  "JSON_stringify (JsArray xs) = ''['' @ join '','' (map stringify_event xs) @ '']''"
| "JSON_stringify (JsString s) = quote_json_string s"

section \<open>Configuration and start-up (lines 1 to 80 of \<open>app.js\<close>)\<close>

text \<open>\<open>process.env\<close> after \<open>dotenv\<close> has loaded the \<open>.env\<close> file.\<close>

type_synonym env = "string \<Rightarrow> string option"

text \<open>
  A setting read as \<open>process.env.X || d\<close> with a numeric default \<open>d\<close>: the variable's
  text when it is set and not empty, the number otherwise.
\<close>

datatype setting = FromEnv string | Default nat

definition env_or :: "string option \<Rightarrow> nat \<Rightarrow> setting" where
  "env_or v d = (case v of None \<Rightarrow> Default d | Some s \<Rightarrow> if s = [] then Default d else FromEnv s)"

definition env_or_string :: "string option \<Rightarrow> string \<Rightarrow> string" where
  "env_or_string v d = (case v of None \<Rightarrow> d | Some s \<Rightarrow> if s = [] then d else s)"

text \<open>The decimal text of a number, as string concatenation renders it.\<close>

fun decimal :: "nat \<Rightarrow> string" where
  "decimal n =
     (if n < 10 then [''0123456789'' ! n]
      else decimal (n div 10) @ [''0123456789'' ! (n mod 10)])"

fun setting_text :: "setting \<Rightarrow> string" where
  "setting_text (FromEnv s) = s"
| "setting_text (Default n) = decimal n"

record config =
  CALENDAR_ID :: string
  API_KEY :: string
  NUM_EVENTS_TO_FETCH :: setting
  LOG_VERBOSITY :: string
  HTTP_PORT :: setting
  SECONDS_BETWEEN_CACHE_REFRESH :: setting

definition HEADER_CONTENT_TYPE :: string where
  "HEADER_CONTENT_TYPE = ''Content-Type''"

definition MIME_TYPE_JSON :: string where
  "MIME_TYPE_JSON = ''application/json''"

text \<open>
  What the module's top level asks of its collaborators, in program order. The timer's
  delay is \<open>SECONDS_BETWEEN_CACHE_REFRESH * 1000\<close>; the effect records the setting only.
\<close>

datatype effect =
    SetLogLevel string
  | Listen setting
  | RouteGet string
  | SetInterval setting
  | CalendarClient string

definition calendar_id_required :: string where
  "calendar_id_required =
     ''env var '' @ [CHR 0x27] @ ''CALENDAR_ID'' @ [CHR 0x27] @
     '' is required. Attain from Google Calendar > Calendar Settings > Integrate Calendar''"

definition api_key_required :: string where
  "api_key_required =
     ''env var '' @ [CHR 0x27] @ ''API_KEY'' @ [CHR 0x27] @
     '' is required. Attain from Google Cloud Console > Google API > Credentials''"

text \<open>
  Two statements of the top level call into libraries that can throw on the value they
  are given: the assignment \<open>logger.level = LOG_VERBOSITY\<close> (pino's setter throws on a
  level name it does not know) and \<open>app.listen(HTTP_PORT, ...)\<close> (Node's \<open>listen\<close> throws
  on a port it does not accept, before it binds). What each accepts is the library's to
  decide, not \<open>app.js\<close>'s, so both are parameters of the model.
\<close>

record runtime =
  level_known :: "string \<Rightarrow> bool"
  port_valid :: "setting \<Rightarrow> bool"

text \<open>
  The precondition checks (lines 35 to 40): the error thrown, or the two required values
  when both are defined.
\<close>

definition precondition_checks :: "env \<Rightarrow> js_error + (string \<times> string)" where
  "precondition_checks env =
     (case env ''CALENDAR_ID'' of
        None \<Rightarrow> Inl (Error calendar_id_required)
      | Some cid \<Rightarrow>
          (case env ''API_KEY'' of
             None \<Rightarrow> Inl (Error api_key_required)
           | Some key \<Rightarrow> Inr (cid, key)))"

text \<open>
  The top level of the module: the effects performed, and either the error thrown (which
  ends the process, nothing after the \<open>throw\<close> being run) or the configuration the
  process goes on with.
\<close>

definition toplevel :: "runtime \<Rightarrow> env \<Rightarrow> effect list \<times> (js_error + config)" where
  "toplevel rt env =
     (case precondition_checks env of
        Inl err \<Rightarrow> ([], Inl err)
      | Inr (cid, key) \<Rightarrow>
          (let cfg = \<lparr> CALENDAR_ID = cid,
                        API_KEY = key,
                        NUM_EVENTS_TO_FETCH = env_or (env ''NUM_EVENTS_TO_FETCH'') 10,
                        LOG_VERBOSITY = env_or_string (env ''LOG_VERBOSITY'') ''info'',
                        HTTP_PORT = env_or (env ''HTTP_PORT'') 3000,
                        SECONDS_BETWEEN_CACHE_REFRESH =
                          env_or (env ''SECONDS_BETWEEN_CACHE_REFRESH'') 60 \<rparr>
           in if level_known rt (LOG_VERBOSITY cfg)
              then
                (if port_valid rt (HTTP_PORT cfg)
                 then ([SetLogLevel (LOG_VERBOSITY cfg),
                        Listen (HTTP_PORT cfg),
                        RouteGet ''/events'',
                        SetInterval (SECONDS_BETWEEN_CACHE_REFRESH cfg),
                        CalendarClient (API_KEY cfg)],
                       Inr cfg)
                 else ([SetLogLevel (LOG_VERBOSITY cfg)],
                       Inl (RangeError (setting_text (HTTP_PORT cfg)))))
              else ([], Inl (Error (''unknown level '' @ LOG_VERBOSITY cfg)))))"

section \<open>The cache manager (lines 50 and 87 to 152 of \<open>app.js\<close>)\<close>

datatype level = Debug | Info | ErrorLevel

type_synonym log_entry = "level \<times> string"

record http_response =
  status :: nat
  headers :: "(string \<times> string) list"
  body :: "cache_value option"

text \<open>
  The state of the running process: the variable \<open>calendarEvents\<close>, the number of
  \<open>fetchEvents\<close> calls suspended at their \<open>await\<close>, the calls made to the logger, the
  error the process has ended with (\<^term>\<open>None\<close> while it runs), and the responses sent.
\<close>

record server_state =
  calendarEvents :: "cache_value option"
  in_flight :: nat
  logged :: "log_entry list"
  exited :: "js_error option"
  responses :: "http_response list"

definition initial_state :: server_state where
  "initial_state =
     \<lparr> calendarEvents = None, in_flight = 0, logged = [], exited = None, responses = [] \<rparr>"

text \<open>
  How the awaited call \<open>calendar.events.list\<close> ends: it rejects, or it resolves with a
  response whose \<open>data.items\<close> is a list of events or is missing.
\<close>

datatype fetch_outcome =
    Rejects js_error
  | Resolves "raw_event list option"

text \<open>
  The callback of \<open>events.map\<close>, run over the events in order: it pushes each transformed
  event onto \<open>calEvents\<close> and logs its detail; a \<open>TypeError\<close> ends the loop.
\<close>

fun mapEvents :: "raw_event list \<Rightarrow> cal_event list \<Rightarrow> log_entry list \<times> (js_error + cal_event list)" where
  "mapEvents [] calEvents = ([], Inr calEvents)"
| "mapEvents (event # events) calEvents =
     (case transformEvent event of
        Inl err \<Rightarrow> ([], Inl err)
      | Inr calEvent \<Rightarrow>
          (case mapEvents events (calEvents @ [calEvent]) of
             (lg, r) \<Rightarrow> ((Debug, eventDetail calEvent) # lg, r)))"

text \<open>
  \<open>fetchEvents\<close> from its \<open>await\<close> on: the logger calls it makes, and the value its promise
  is fulfilled with (\<^term>\<open>Inr\<close>) or the reason it is rejected with (\<^term>\<open>Inl\<close>).
\<close>

definition fetchEvents :: "config \<Rightarrow> fetch_outcome \<Rightarrow> log_entry list \<times> (js_error + cache_value)" where
  "fetchEvents cfg outcome =
     (let calEvents = [] in
      case outcome of
        Rejects err \<Rightarrow> ([], Inl err)
      | Resolves None \<Rightarrow> ([(Debug, ''No upcoming events found.'')], Inr (JsArray calEvents))
      | Resolves (Some events) \<Rightarrow>
          if length events = 0
          then ([(Debug, ''No upcoming events found.'')], Inr (JsArray calEvents))
          else
            (case mapEvents events calEvents of
               (lg, Inl err) \<Rightarrow>
                 ((Debug, ''Next (max) '' @ setting_text (NUM_EVENTS_TO_FETCH cfg) @ '' Events:'') # lg,
                  Inl err)
             | (lg, Inr calEvents') \<Rightarrow>
                 ((Debug, ''Next (max) '' @ setting_text (NUM_EVENTS_TO_FETCH cfg) @ '' Events:'') # lg,
                  Inr (JsString (JSON_stringify (JsArray calEvents'))))))"

text \<open>
  \<open>cacheEvents()\<close> calls \<open>fetchEvents()\<close>, which runs up to its \<open>await\<close> and returns a
  pending promise, and attaches the fulfilment callback: one more fetch is in flight and
  nothing else has changed when \<open>cacheEvents\<close> returns.
\<close>

definition cacheEvents :: "server_state \<Rightarrow> server_state" where
  "cacheEvents s = s\<lparr> in_flight := in_flight s + 1 \<rparr>"

text \<open>
  A fetch in flight settles. When \<open>fetchEvents\<close> fulfils its promise the callback given to
  \<open>then\<close> stores the value and logs. When it rejects, no callback was attached for that:
  the promise \<open>then\<close> returned is rejected with no handler, the program registers no
  \<open>unhandledRejection\<close> listener and selects no other mode, and Node's default for such a
  rejection is to raise it as an uncaught exception, which ends the process. Nothing
  settles when no fetch is in flight.
\<close>

definition settle :: "config \<Rightarrow> fetch_outcome \<Rightarrow> server_state \<Rightarrow> server_state" where
  "settle cfg outcome s =
     (if in_flight s = 0 then s
      else
        (case fetchEvents cfg outcome of
           (lg, Inl err) \<Rightarrow>
             s\<lparr> in_flight := in_flight s - 1,
                logged := logged s @ lg,
                exited := Some err \<rparr>
         | (lg, Inr response) \<Rightarrow>
             s\<lparr> calendarEvents := Some response,
                in_flight := in_flight s - 1,
                logged := logged s @ lg @
                  [(Debug, JSON_stringify response), (Info, ''Refreshed Cache'')] \<rparr>))"

text \<open>
  \<open>getEvents()\<close>: the value returned and the state left behind. The callback of
  \<open>cacheEvents\<close> cannot run before the \<open>return\<close>, so the variable is read as it was.
\<close>

definition getEvents :: "server_state \<Rightarrow> cache_value option \<times> server_state" where
  "getEvents s =
     (let s' = (if calendarEvents s = None then cacheEvents s else s)
      in (calendarEvents s', s'))"

text \<open>One refresh cycle: \<open>cacheEvents()\<close> is called and the fetch it started settles.\<close>

definition refresh :: "config \<Rightarrow> fetch_outcome \<Rightarrow> server_state \<Rightarrow> server_state" where
  "refresh cfg outcome s = settle cfg outcome (cacheEvents s)"

subsection \<open>The event loop\<close>

datatype event =
    ListenCallback "string option"   \<comment> \<open>the callback of \<open>app.listen\<close>, with its \<open>error\<close>\<close>
  | TimerFires                       \<comment> \<open>\<open>setInterval\<close> calls \<open>cacheEvents\<close>\<close>
  | HttpGetEvents                    \<comment> \<open>a \<open>GET /events\<close> request\<close>
  | FetchSettles fetch_outcome

text \<open>What the program does on each event while the process runs.\<close>

fun dispatch :: "config \<Rightarrow> event \<Rightarrow> server_state \<Rightarrow> server_state" where
  "dispatch cfg (ListenCallback None) s =
     cacheEvents
       (s\<lparr> logged := logged s @
            [(Info, ''Server running on port: '' @ setting_text (HTTP_PORT cfg))] \<rparr>)"
| "dispatch cfg (ListenCallback (Some error)) s =
     s\<lparr> logged := logged s @ [(ErrorLevel, ''Error in starting HTTP Server'')] \<rparr>"
| "dispatch cfg TimerFires s = cacheEvents s"
| "dispatch cfg HttpGetEvents s =
     (case getEvents s of
        (v, s') \<Rightarrow>
          s'\<lparr> responses := responses s' @
                [\<lparr> status = 200, headers = [(HEADER_CONTENT_TYPE, MIME_TYPE_JSON)], body = v \<rparr>] \<rparr>)"
| "dispatch cfg (FetchSettles outcome) s = settle cfg outcome s"

text \<open>A process that has ended handles no event: no callback runs and no request is answered.\<close>

definition step :: "config \<Rightarrow> event \<Rightarrow> server_state \<Rightarrow> server_state" where
  "step cfg ev s = (case exited s of Some err \<Rightarrow> s | None \<Rightarrow> dispatch cfg ev s)"

definition run :: "config \<Rightarrow> event list \<Rightarrow> server_state \<Rightarrow> server_state" where
  "run cfg evs s = fold (step cfg) evs s"

text \<open>A fetch outcome on which \<open>fetchEvents\<close> rejects.\<close>

definition fetch_fails :: "config \<Rightarrow> fetch_outcome \<Rightarrow> bool" where
  "fetch_fails cfg outcome = (case snd (fetchEvents cfg outcome) of Inl _ \<Rightarrow> True | Inr _ \<Rightarrow> False)"

subsection \<open>Sample inputs\<close>

abbreviation (input) example_config :: config where
  "example_config \<equiv>
     \<lparr> CALENDAR_ID = ''primary'', API_KEY = ''k'', NUM_EVENTS_TO_FETCH = Default 10,
       LOG_VERBOSITY = ''info'', HTTP_PORT = Default 3000,
       SECONDS_BETWEEN_CACHE_REFRESH = Default 60 \<rparr>"

abbreviation (input) example_runtime :: runtime where
  "example_runtime \<equiv>
     \<lparr> level_known = (\<lambda>l. l \<in> set [''trace'', ''debug'', ''info'', ''warn'', ''error'', ''fatal'', ''silent'']),
       port_valid = (\<lambda>p. p = Default 3000 \<or> p = FromEnv ''8080'') \<rparr>"

abbreviation (input) standup :: raw_event where
  "standup \<equiv>
     \<lparr> ev_start = Some \<lparr> dateTime = Some ''2024-05-01T10:00:00Z'', date = None \<rparr>,
       ev_end = Some \<lparr> dateTime = Some ''2024-05-01T10:30:00Z'', date = None \<rparr>,
       ev_summary = Some ''Standup'', ev_hangoutLink = None,
       ev_htmlLink = Some ''https://calendar.example/1'',
       ev_location = None, ev_description = None \<rparr>"

abbreviation (input) holiday :: raw_event where
  "holiday \<equiv>
     \<lparr> ev_start = Some \<lparr> dateTime = None, date = Some ''2024-05-02'' \<rparr>,
       ev_end = Some \<lparr> dateTime = None, date = Some ''2024-05-03'' \<rparr>,
       ev_summary = Some ''Holiday'', ev_hangoutLink = None,
       ev_htmlLink = None, ev_location = Some ''Home'', ev_description = None \<rparr>"

text \<open>The process after its listener came up and its first fetch brought two events.\<close>

abbreviation (input) populated_state :: server_state where
  "populated_state \<equiv>
     run example_config
       [ListenCallback None, FetchSettles (Resolves (Some [standup, holiday]))] initial_state"

section \<open>Basic facts about the cache manager\<close>

lemma calendarEvents_cacheEvents: "calendarEvents (cacheEvents s) = calendarEvents s"
  by (simp add: cacheEvents_def)

lemma in_flight_cacheEvents: "in_flight (cacheEvents s) = Suc (in_flight s)"
  by (simp add: cacheEvents_def)

lemma fst_getEvents: "fst (getEvents s) = calendarEvents s"
  by (simp add: getEvents_def Let_def calendarEvents_cacheEvents)

lemma fetch_fails_iff:
  "fetch_fails cfg outcome \<longleftrightarrow> (\<exists>lg err. fetchEvents cfg outcome = (lg, Inl err))"
  by (cases "fetchEvents cfg outcome") (auto simp: fetch_fails_def split: sum.splits)

lemma calendarEvents_settle_fails:
  "fetch_fails cfg outcome \<Longrightarrow> calendarEvents (settle cfg outcome s) = calendarEvents s"
  by (auto simp: fetch_fails_iff settle_def)

lemma calendarEvents_settle_succeeds:
  "fetchEvents cfg outcome = (lg, Inr v) \<Longrightarrow> 0 < in_flight s \<Longrightarrow>
   calendarEvents (settle cfg outcome s) = Some v"
  by (simp add: settle_def)

lemma fetchEvents_no_events:
  "items = None \<or> items = Some [] \<Longrightarrow>
   fetchEvents cfg (Resolves items) = ([(Debug, ''No upcoming events found.'')], Inr (JsArray []))"
  by (auto simp: fetchEvents_def)

subsection \<open>A process that has ended\<close>

lemma step_exited: "exited s = Some err \<Longrightarrow> step cfg ev s = s"
  by (simp add: step_def)

lemma run_Nil: "run cfg [] s = s"
  by (simp add: run_def)

lemma run_Cons: "run cfg (ev # evs) s = run cfg evs (step cfg ev s)"
  by (simp add: run_def)

lemma run_exited: "exited s = Some err \<Longrightarrow> run cfg evs s = s"
  by (induction evs) (simp_all add: run_Nil run_Cons step_exited)

lemma settle_fails:
  assumes "fetchEvents cfg outcome = (lg, Inl err)" and "0 < in_flight s"
  shows "settle cfg outcome s =
           s\<lparr> in_flight := in_flight s - 1, logged := logged s @ lg, exited := Some err \<rparr>"
  using assms by (simp add: settle_def)

subsection \<open>What the logger is sent while fetching\<close>

lemma mapEvents_log_debug:
  "mapEvents events acc = (lg, r) \<Longrightarrow> list_all (\<lambda>e. fst e = Debug) lg"
proof (induction events arbitrary: acc lg r)
  case Nil
  then show ?case by simp
next
  case (Cons event events)
  then show ?case
    by (auto split: sum.splits prod.splits)
qed

lemma fetchEvents_log_debug:
  "fetchEvents cfg outcome = (lg, r) \<Longrightarrow> list_all (\<lambda>e. fst e = Debug) lg"
  by (auto simp: fetchEvents_def split: fetch_outcome.splits option.splits if_splits
        prod.splits sum.splits dest: mapEvents_log_debug)

lemma filter_not_debug:
  "list_all (\<lambda>e. fst e = Debug) lg \<Longrightarrow> filter (\<lambda>e. fst e \<noteq> Debug) lg = []"
  by (induction lg) auto

subsection \<open>Looking a key up in the serialized members\<close>

lemma map_of_members_Cons:
  "map_of (List.map_filter (\<lambda>(k, v). map_option (\<lambda>s. (k, s)) v) ((k', v') # kvs)) key =
     (if key = k' \<and> v' \<noteq> None then v'
      else map_of (List.map_filter (\<lambda>(k, v). map_option (\<lambda>s. (k, s)) v) kvs) key)"
  by (cases v') (simp_all add: List.map_filter_simps)

lemma map_of_members_Nil:
  "map_of (List.map_filter (\<lambda>(k, v). map_option (\<lambda>s. (k, s)) v) []) key = None"
  by (simp add: List.map_filter_simps)

lemma map_of_json_members:
  "map_of (json_members c) ''summary'' = ce_summary c"
  "map_of (json_members c) ''hangoutLink'' = ce_hangoutLink c"
  "map_of (json_members c) ''htmlLink'' = ce_htmlLink c"
  "map_of (json_members c) ''location'' = ce_location c"
  "map_of (json_members c) ''description'' = ce_description c"
  unfolding json_members_def map_of_members_Cons map_of_members_Nil
  by simp_all

section \<open>The claims\<close>

text \<open>
  C3. In a refresh cycle whose fetch resolves with no \<open>items\<close> list or with an empty one,
  \<open>calendarEvents\<close> becomes the empty array, which is not \<open>undefined\<close>; a call of
  \<open>getEvents()\<close> after it returns that empty array and starts no fetch.
\<close>

theorem refresh_no_events_caches_empty_list:
  assumes "items = None \<or> items = Some []"
  shows "calendarEvents (refresh cfg (Resolves items) s) = Some (JsArray [])
       \<and> getEvents (refresh cfg (Resolves items) s) =
           (Some (JsArray []), refresh cfg (Resolves items) s)"
proof -
  have c: "calendarEvents (refresh cfg (Resolves items) s) = Some (JsArray [])"
    using fetchEvents_no_events [OF assms, of cfg]
    by (simp add: refresh_def calendarEvents_settle_succeeds in_flight_cacheEvents)
  then show ?thesis by (simp add: getEvents_def)
qed

theorem refresh_no_events_caches_empty_list_witness:
  "((None :: raw_event list option) = None \<or> (None :: raw_event list option) = Some [])
   \<and> calendarEvents (refresh example_config (Resolves None) initial_state) = Some (JsArray [])
   \<and> getEvents (refresh example_config (Resolves None) initial_state) =
         (Some (JsArray []), refresh example_config (Resolves None) initial_state)"
proof -
  have h: "(None :: raw_event list option) = None \<or> (None :: raw_event list option) = Some []"
    by simp
  show ?thesis
    using refresh_no_events_caches_empty_list [OF h, of example_config initial_state] by simp
qed

text \<open>
  C9. Two refresh cycles in succession whose fetches end the same way leave the same
  content in \<open>calendarEvents\<close> after the second as after the first.
\<close>

theorem refresh_idempotent:
  "calendarEvents (refresh cfg outcome (refresh cfg outcome s)) =
   calendarEvents (refresh cfg outcome s)"
proof (cases "fetchEvents cfg outcome")
  case (Pair lg r)
  show ?thesis
  proof (cases r)
    case (Inl err)
    with Pair have "fetch_fails cfg outcome" by (simp add: fetch_fails_iff)
    then show ?thesis
      by (simp add: refresh_def calendarEvents_settle_fails calendarEvents_cacheEvents)
  next
    case (Inr v)
    with Pair show ?thesis
      by (simp add: refresh_def calendarEvents_settle_succeeds in_flight_cacheEvents)
  qed
qed

text \<open>
  C1. The claim is that \<open>getEvents()\<close>, called while \<open>calendarEvents\<close> is \<open>undefined\<close>,
  returns populated cache content. The code starts one fetch and returns \<open>undefined\<close>:
  on the freshly started process, and on every state whose cache is unpopulated.
\<close>

theorem getEvents_unpopulated_returns_undefined:
  "getEvents initial_state = (None, initial_state\<lparr> in_flight := 1 \<rparr>)
   \<and> fst (getEvents (s\<lparr> calendarEvents := None \<rparr>)) = None
   \<and> in_flight (snd (getEvents (s\<lparr> calendarEvents := None \<rparr>))) = in_flight s + 1"
  by (simp add: getEvents_def cacheEvents_def initial_state_def)

text \<open>
  C2. The claim is that every successful refresh cycle stores the cache content in the
  same serialized form. The code stores the array object itself when the provider has no
  events, and a \<open>JSON.stringify\<close> string when it has some.
\<close>

theorem refresh_stores_array_or_string:
  "calendarEvents (refresh cfg (Resolves (Some [])) s) = Some (JsArray [])
   \<and> calendarEvents (refresh cfg (Resolves None) s) = Some (JsArray [])
   \<and> calendarEvents (refresh cfg (Resolves (Some [holiday])) s) =
       Some (JsString (JSON_stringify (JsArray
         [\<lparr> ce_start = Some ''2024-05-02'', ce_end = Some ''2024-05-03'',
            ce_summary = Some ''Holiday'', ce_hangoutLink = None,
            ce_htmlLink = None, ce_location = Some ''Home'', ce_description = None \<rparr>])))
   \<and> JSON_stringify (JsArray []) = ''[]''"
  by (simp add: refresh_def settle_def cacheEvents_def fetchEvents_def transformEvent_def js_or_def)

text \<open>
  C4, as amended. When a fetch in flight fails in a running process (the provider's call
  rejects, or \<open>fetchEvents\<close> throws on the response), \<open>calendarEvents\<close> is not updated: it
  holds what it held before. The failure has no handler and ends the process, so the
  cached value is visible only up to then: whatever events follow, nothing more happens,
  and no request after the failure is answered.
\<close>

theorem failed_fetch_keeps_cache_and_ends_process:
  assumes "fetch_fails cfg outcome" and "exited s = None" and "0 < in_flight s"
  shows "calendarEvents (step cfg (FetchSettles outcome) s) = calendarEvents s
       \<and> (\<exists>err. exited (step cfg (FetchSettles outcome) s) = Some err)
       \<and> run cfg (FetchSettles outcome # evs) s = step cfg (FetchSettles outcome) s
       \<and> calendarEvents (run cfg (FetchSettles outcome # evs) s) = calendarEvents s
       \<and> responses (run cfg (FetchSettles outcome # evs) s) = responses s"
proof -
  from assms(1) obtain lg err where f: "fetchEvents cfg outcome = (lg, Inl err)"
    by (auto simp: fetch_fails_iff)
  have st: "step cfg (FetchSettles outcome) s =
      s\<lparr> in_flight := in_flight s - 1, logged := logged s @ lg, exited := Some err \<rparr>"
    using assms(2) settle_fails [OF f assms(3)] by (simp add: step_def)
  have c: "calendarEvents (step cfg (FetchSettles outcome) s) = calendarEvents s"
    by (simp add: st)
  have r: "responses (step cfg (FetchSettles outcome) s) = responses s"
    by (simp add: st)
  have e: "exited (step cfg (FetchSettles outcome) s) = Some err"
    by (simp add: st)
  have stop: "run cfg (FetchSettles outcome # evs) s = step cfg (FetchSettles outcome) s"
    using run_exited [OF e] by (simp add: run_Cons)
  show ?thesis
    using c r e stop by simp
qed

theorem failed_fetch_keeps_cache_and_ends_process_witness:
  "fetch_fails example_config (Resolves (Some [standup, holiday\<lparr> ev_end := None \<rparr>]))
   \<and> exited (run example_config [HttpGetEvents, TimerFires] populated_state) = None
   \<and> 0 < in_flight (run example_config [HttpGetEvents, TimerFires] populated_state)
   \<and> calendarEvents
       (run example_config
          [FetchSettles (Resolves (Some [standup, holiday\<lparr> ev_end := None \<rparr>])),
           HttpGetEvents, TimerFires, FetchSettles (Resolves (Some [standup]))]
          (run example_config [HttpGetEvents, TimerFires] populated_state)) =
       calendarEvents (run example_config [HttpGetEvents, TimerFires] populated_state)
   \<and> responses
       (run example_config
          [FetchSettles (Resolves (Some [standup, holiday\<lparr> ev_end := None \<rparr>])),
           HttpGetEvents, TimerFires, FetchSettles (Resolves (Some [standup]))]
          (run example_config [HttpGetEvents, TimerFires] populated_state)) =
       responses (run example_config [HttpGetEvents, TimerFires] populated_state)
   \<and> length (responses (run example_config [HttpGetEvents, TimerFires] populated_state)) = 1"
proof -
  have h1: "fetch_fails example_config (Resolves (Some [standup, holiday\<lparr> ev_end := None \<rparr>]))"
    by (simp add: fetch_fails_def fetchEvents_def transformEvent_def)
  have h2: "exited (run example_config [HttpGetEvents, TimerFires] populated_state) = None"
    by (simp add: run_def step_def settle_def cacheEvents_def getEvents_def initial_state_def
        fetchEvents_def transformEvent_def)
  have h3: "0 < in_flight (run example_config [HttpGetEvents, TimerFires] populated_state)"
    by (simp add: run_def step_def settle_def cacheEvents_def getEvents_def initial_state_def
        fetchEvents_def transformEvent_def)
  have n: "length (responses (run example_config [HttpGetEvents, TimerFires] populated_state)) = 1"
    by (simp add: run_def step_def settle_def cacheEvents_def getEvents_def initial_state_def
        fetchEvents_def transformEvent_def)
  note t = failed_fetch_keeps_cache_and_ends_process [OF h1 h2 h3,
      where evs = "[HttpGetEvents, TimerFires, FetchSettles (Resolves (Some [standup]))]"]
  note c = t [THEN conjunct2, THEN conjunct2, THEN conjunct2, THEN conjunct1]
  note r = t [THEN conjunct2, THEN conjunct2, THEN conjunct2, THEN conjunct2]
  show ?thesis
    by (rule conjI [OF h1 conjI [OF h2 conjI [OF h3 conjI [OF c conjI [OF r n]]]]])
qed

text \<open>
  The claim C4 as it was stated has every \<open>getEvents()\<close> call after a failing refresh
  return the events cached before. With two events cached, a timer refresh whose fetch is
  rejected ends the process, and the request that follows gets no response.
\<close>

theorem cached_value_served_after_failure_counterexample:
  "calendarEvents populated_state =
     Some (JsString (JSON_stringify (JsArray
       [\<lparr> ce_start = Some ''2024-05-01T10:00:00Z'', ce_end = Some ''2024-05-01T10:30:00Z'',
          ce_summary = Some ''Standup'', ce_hangoutLink = None,
          ce_htmlLink = Some ''https://calendar.example/1'',
          ce_location = None, ce_description = None \<rparr>,
        \<lparr> ce_start = Some ''2024-05-02'', ce_end = Some ''2024-05-03'',
          ce_summary = Some ''Holiday'', ce_hangoutLink = None,
          ce_htmlLink = None, ce_location = Some ''Home'', ce_description = None \<rparr>])))
   \<and> exited populated_state = None
   \<and> responses populated_state = []
   \<and> exited (run example_config
         [TimerFires, FetchSettles (Rejects (Rejection ''ETIMEDOUT'')), HttpGetEvents]
         populated_state) = Some (Rejection ''ETIMEDOUT'')
   \<and> responses (run example_config
         [TimerFires, FetchSettles (Rejects (Rejection ''ETIMEDOUT'')), HttpGetEvents]
         populated_state) = []"
  by (simp add: run_def step_def settle_def cacheEvents_def getEvents_def initial_state_def
      fetchEvents_def transformEvent_def js_or_def)

text \<open>
  C5, as amended. A fetch failure is not absorbed. \<open>cacheEvents\<close> attaches no rejection
  handler, so nothing about the failure is logged (the only entries a failing cycle can
  add are the debug lines \<open>fetchEvents\<close> wrote before it threw, and none at all when the
  provider's call itself rejects) and the unhandled rejection ends the process. The
  failure does not update the cache, sends no response, and reaches no caller
  synchronously: \<open>cacheEvents()\<close> only starts the fetch and \<open>getEvents()\<close> returns the
  cached value.
\<close>

theorem fetch_failure_unlogged_and_ends_process:
  assumes "fetch_fails cfg outcome"
  shows "calendarEvents (refresh cfg outcome s) = calendarEvents s
       \<and> responses (refresh cfg outcome s) = responses s
       \<and> (\<exists>err. exited (refresh cfg outcome s) = Some err)
       \<and> filter (\<lambda>e. fst e \<noteq> Debug) (logged (refresh cfg outcome s)) =
           filter (\<lambda>e. fst e \<noteq> Debug) (logged s)
       \<and> logged (refresh cfg (Rejects reason) s) = logged s
       \<and> exited (refresh cfg (Rejects reason) s) = Some reason
       \<and> run cfg evs (refresh cfg outcome s) = refresh cfg outcome s
       \<and> cacheEvents s = s\<lparr> in_flight := Suc (in_flight s) \<rparr>
       \<and> fst (getEvents s) = calendarEvents s"
proof -
  from assms obtain lg err where f: "fetchEvents cfg outcome = (lg, Inl err)"
    by (auto simp: fetch_fails_iff)
  have d: "filter (\<lambda>e. fst e \<noteq> Debug) lg = []"
    using fetchEvents_log_debug [OF f] by (rule filter_not_debug)
  have r: "fetchEvents cfg (Rejects reason) = ([], Inl reason)"
    by (simp add: fetchEvents_def)
  have 1: "calendarEvents (refresh cfg outcome s) = calendarEvents s"
    using f by (simp add: refresh_def settle_def cacheEvents_def)
  have 2: "responses (refresh cfg outcome s) = responses s"
    using f by (simp add: refresh_def settle_def cacheEvents_def)
  have 3: "exited (refresh cfg outcome s) = Some err"
    using f by (simp add: refresh_def settle_def cacheEvents_def)
  have 4: "filter (\<lambda>e. fst e \<noteq> Debug) (logged (refresh cfg outcome s)) =
           filter (\<lambda>e. fst e \<noteq> Debug) (logged s)"
    using f d by (simp add: refresh_def settle_def cacheEvents_def)
  have 5: "logged (refresh cfg (Rejects reason) s) = logged s"
    using r by (simp add: refresh_def settle_def cacheEvents_def)
  have 6: "exited (refresh cfg (Rejects reason) s) = Some reason"
    using r by (simp add: refresh_def settle_def cacheEvents_def)
  have 7: "run cfg evs (refresh cfg outcome s) = refresh cfg outcome s"
    using 3 by (rule run_exited)
  have 8: "cacheEvents s = s\<lparr> in_flight := Suc (in_flight s) \<rparr>"
    by (simp add: cacheEvents_def)
  show ?thesis
    using 1 2 3 4 5 6 7 8 by (simp add: fst_getEvents)
qed

theorem fetch_failure_unlogged_and_ends_process_witness:
  "fetch_fails example_config (Resolves (Some [standup, holiday\<lparr> ev_start := None \<rparr>]))
   \<and> calendarEvents (refresh example_config
         (Resolves (Some [standup, holiday\<lparr> ev_start := None \<rparr>])) populated_state) =
       calendarEvents populated_state
   \<and> exited (refresh example_config
         (Resolves (Some [standup, holiday\<lparr> ev_start := None \<rparr>])) populated_state) =
       Some (TypeError ''dateTime'')
   \<and> filter (\<lambda>e. fst e \<noteq> Debug) (logged (refresh example_config
         (Resolves (Some [standup, holiday\<lparr> ev_start := None \<rparr>])) populated_state)) =
       filter (\<lambda>e. fst e \<noteq> Debug) (logged populated_state)
   \<and> run example_config [HttpGetEvents, TimerFires] (refresh example_config
         (Resolves (Some [standup, holiday\<lparr> ev_start := None \<rparr>])) populated_state) =
       refresh example_config
         (Resolves (Some [standup, holiday\<lparr> ev_start := None \<rparr>])) populated_state"
proof -
  have h: "fetch_fails example_config (Resolves (Some [standup, holiday\<lparr> ev_start := None \<rparr>]))"
    by (simp add: fetch_fails_def fetchEvents_def transformEvent_def)
  have u: "exited (refresh example_config
         (Resolves (Some [standup, holiday\<lparr> ev_start := None \<rparr>])) populated_state) =
       Some (TypeError ''dateTime'')"
    by (simp add: refresh_def settle_def cacheEvents_def fetchEvents_def transformEvent_def)
  note t = fetch_failure_unlogged_and_ends_process [OF h,
      where s = populated_state and evs = "[HttpGetEvents, TimerFires]"]
  note c = t [THEN conjunct1]
  note d = t [THEN conjunct2, THEN conjunct2, THEN conjunct2, THEN conjunct1]
  note e = t [THEN conjunct2, THEN conjunct2, THEN conjunct2, THEN conjunct2,
      THEN conjunct2, THEN conjunct2, THEN conjunct1]
  show ?thesis
    by (rule conjI [OF h conjI [OF c conjI [OF u conjI [OF d e]]]])
qed

text \<open>
  The claim C5 as it was stated says that every fetch failure is logged and does not
  crash the process. When the provider's call is rejected on a fresh process, the log
  stays empty, the process ends with the rejection, and a request after it gets no
  response.
\<close>

theorem fetch_failure_absorbed_counterexample:
  "logged (refresh example_config (Rejects (Rejection ''ECONNREFUSED'')) initial_state) = []
   \<and> exited (refresh example_config (Rejects (Rejection ''ECONNREFUSED'')) initial_state) =
       Some (Rejection ''ECONNREFUSED'')
   \<and> responses (run example_config [HttpGetEvents]
       (refresh example_config (Rejects (Rejection ''ECONNREFUSED'')) initial_state)) = []"
  by (simp add: run_def step_def refresh_def settle_def cacheEvents_def fetchEvents_def
      initial_state_def)

text \<open>
  C6, as amended. For a provider event that has its \<open>start\<close> and \<open>end\<close> objects: when the
  start date-time is present and is not the empty string, \<open>start\<close> is that date-time
  string, whether or not a date is present too; when the start date-time is absent or is
  the empty string, \<open>start\<close> is the start date (absent when the date is absent). The same
  rule gives \<open>end\<close>. The strings are passed through unchanged.
\<close>

theorem transformEvent_start_end_precedence:
  assumes "ev_start event = Some st" and "ev_end event = Some en"
  shows "\<exists>out. transformEvent event = Inr out
       \<and> (\<forall>s. dateTime st = Some s \<and> s \<noteq> [] \<longrightarrow> ce_start out = Some s)
       \<and> (dateTime st = None \<or> dateTime st = Some [] \<longrightarrow> ce_start out = date st)
       \<and> (\<forall>s. dateTime en = Some s \<and> s \<noteq> [] \<longrightarrow> ce_end out = Some s)
       \<and> (dateTime en = None \<or> dateTime en = Some [] \<longrightarrow> ce_end out = date en)"
  using assms by (auto simp: transformEvent_def js_or_def)

theorem transformEvent_start_end_precedence_witness:
  "(\<exists>out. transformEvent
       \<lparr> ev_start = Some \<lparr> dateTime = Some ''2024-05-01T10:00:00Z'', date = Some ''2024-05-01'' \<rparr>,
         ev_end = Some \<lparr> dateTime = None, date = Some ''2024-05-02'' \<rparr>,
         ev_summary = None, ev_hangoutLink = None, ev_htmlLink = None,
         ev_location = None, ev_description = None \<rparr> = Inr out
     \<and> ce_start out = Some ''2024-05-01T10:00:00Z'' \<and> ce_end out = Some ''2024-05-02'')
   \<and> (\<exists>out. transformEvent
       \<lparr> ev_start = Some \<lparr> dateTime = Some [], date = Some ''2024-05-02'' \<rparr>,
         ev_end = Some \<lparr> dateTime = Some ''2024-05-03T09:00:00Z'', date = Some ''2024-05-03'' \<rparr>,
         ev_summary = None, ev_hangoutLink = None, ev_htmlLink = None,
         ev_location = None, ev_description = None \<rparr> = Inr out
     \<and> ce_start out = Some ''2024-05-02'' \<and> ce_end out = Some ''2024-05-03T09:00:00Z'')"
  using
    transformEvent_start_end_precedence
      [of "\<lparr> ev_start = Some \<lparr> dateTime = Some ''2024-05-01T10:00:00Z'', date = Some ''2024-05-01'' \<rparr>,
         ev_end = Some \<lparr> dateTime = None, date = Some ''2024-05-02'' \<rparr>,
         ev_summary = None, ev_hangoutLink = None, ev_htmlLink = None,
         ev_location = None, ev_description = None \<rparr>"
        "\<lparr> dateTime = Some ''2024-05-01T10:00:00Z'', date = Some ''2024-05-01'' \<rparr>"
        "\<lparr> dateTime = None, date = Some ''2024-05-02'' \<rparr>"]
    transformEvent_start_end_precedence
      [of "\<lparr> ev_start = Some \<lparr> dateTime = Some [], date = Some ''2024-05-02'' \<rparr>,
         ev_end = Some \<lparr> dateTime = Some ''2024-05-03T09:00:00Z'', date = Some ''2024-05-03'' \<rparr>,
         ev_summary = None, ev_hangoutLink = None, ev_htmlLink = None,
         ev_location = None, ev_description = None \<rparr>"
        "\<lparr> dateTime = Some [], date = Some ''2024-05-02'' \<rparr>"
        "\<lparr> dateTime = Some ''2024-05-03T09:00:00Z'', date = Some ''2024-05-03'' \<rparr>"]
  by simp

text \<open>
  The claim C6 as it was stated gives \<open>start\<close> the date-time string whenever that field is
  present. An event whose start date-time is present as the empty string, with a start
  date beside it, gets the date.
\<close>

theorem start_dateTime_precedence_counterexample:
  "transformEvent
     \<lparr> ev_start = Some \<lparr> dateTime = Some [], date = Some ''2024-05-02'' \<rparr>,
       ev_end = Some \<lparr> dateTime = Some ''2024-05-03T09:00:00Z'', date = None \<rparr>,
       ev_summary = None, ev_hangoutLink = None, ev_htmlLink = None,
       ev_location = None, ev_description = None \<rparr> =
   Inr \<lparr> ce_start = Some ''2024-05-02'', ce_end = Some ''2024-05-03T09:00:00Z'',
         ce_summary = None, ce_hangoutLink = None, ce_htmlLink = None,
         ce_location = None, ce_description = None \<rparr>
   \<and> Some ''2024-05-02'' \<noteq> Some ([] :: string)"
  by (simp add: transformEvent_def js_or_def)

text \<open>
  C7. For a provider event that has its \<open>start\<close> and \<open>end\<close> objects, each of \<open>summary\<close>,
  \<open>hangoutLink\<close>, \<open>htmlLink\<close>, \<open>location\<close> and \<open>description\<close> is on the output what it is on
  the input: absent when absent, the same string when present. The serialized object has
  a member for the key exactly when the field is present, with that string.
\<close>

theorem transformEvent_copies_optional_fields:
  assumes "ev_start event = Some st" and "ev_end event = Some en"
  shows "\<exists>out. transformEvent event = Inr out
       \<and> ce_summary out = ev_summary event
       \<and> ce_hangoutLink out = ev_hangoutLink event
       \<and> ce_htmlLink out = ev_htmlLink event
       \<and> ce_location out = ev_location event
       \<and> ce_description out = ev_description event
       \<and> map_of (json_members out) ''summary'' = ev_summary event
       \<and> map_of (json_members out) ''hangoutLink'' = ev_hangoutLink event
       \<and> map_of (json_members out) ''htmlLink'' = ev_htmlLink event
       \<and> map_of (json_members out) ''location'' = ev_location event
       \<and> map_of (json_members out) ''description'' = ev_description event"
  using assms by (simp add: transformEvent_def map_of_json_members)

theorem transformEvent_copies_optional_fields_witness:
  "\<exists>out. transformEvent standup = Inr out
       \<and> ce_summary out = Some ''Standup''
       \<and> ce_hangoutLink out = None
       \<and> ce_htmlLink out = Some ''https://calendar.example/1''
       \<and> ce_location out = None
       \<and> ce_description out = None
       \<and> map_of (json_members out) ''summary'' = Some ''Standup''
       \<and> map_of (json_members out) ''hangoutLink'' = None
       \<and> map_of (json_members out) ''htmlLink'' = Some ''https://calendar.example/1''
       \<and> map_of (json_members out) ''location'' = None
       \<and> map_of (json_members out) ''description'' = None"
  using transformEvent_copies_optional_fields
    [of standup "\<lparr> dateTime = Some ''2024-05-01T10:00:00Z'', date = None \<rparr>"
       "\<lparr> dateTime = Some ''2024-05-01T10:30:00Z'', date = None \<rparr>"]
  by simp

text \<open>
  C8. When \<open>CALENDAR_ID\<close> or \<open>API_KEY\<close> is not in the environment, the top level of the
  module throws an \<open>Error\<close> before it has asked for anything: no listener, no route, no
  timer.
\<close>

theorem toplevel_missing_required_aborts:
  assumes "env ''CALENDAR_ID'' = None \<or> env ''API_KEY'' = None"
  shows "fst (toplevel rt env) = [] \<and> (\<exists>msg. snd (toplevel rt env) = Inl (Error msg))"
  using assms by (auto simp: toplevel_def precondition_checks_def split: option.splits)

theorem toplevel_missing_required_aborts_witness:
  "(fst (toplevel example_runtime (Map.empty(''API_KEY'' \<mapsto> ''k''))) = []
      \<and> snd (toplevel example_runtime (Map.empty(''API_KEY'' \<mapsto> ''k''))) =
          Inl (Error calendar_id_required))
   \<and> (fst (toplevel example_runtime (Map.empty(''CALENDAR_ID'' \<mapsto> ''primary''))) = []
      \<and> snd (toplevel example_runtime (Map.empty(''CALENDAR_ID'' \<mapsto> ''primary''))) =
          Inl (Error api_key_required))"
  using toplevel_missing_required_aborts [of "Map.empty(''API_KEY'' \<mapsto> ''k'')" example_runtime]
    toplevel_missing_required_aborts [of "Map.empty(''CALENDAR_ID'' \<mapsto> ''primary'')" example_runtime]
  by (simp add: toplevel_def precondition_checks_def)

text \<open>
  C10. The precondition checks throw exactly when \<open>CALENDAR_ID\<close> or \<open>API_KEY\<close> is
  \<open>undefined\<close>; set to any strings, the empty string included, both pass. The top level
  then, where the logger knows the log level and \<open>listen\<close> accepts the port, goes on to
  set the level, open the listener, register the route and the timer, and build the
  calendar client with that key.
\<close>

theorem toplevel_rejects_only_undefined:
  "(isl (precondition_checks env) \<longleftrightarrow> env ''CALENDAR_ID'' = None \<or> env ''API_KEY'' = None)
   \<and> (env ''CALENDAR_ID'' = Some cid \<and> env ''API_KEY'' = Some key \<longrightarrow>
        precondition_checks env = Inr (cid, key))
   \<and> (env ''CALENDAR_ID'' = Some cid \<and> env ''API_KEY'' = Some key
        \<and> level_known rt (env_or_string (env ''LOG_VERBOSITY'') ''info'')
        \<and> port_valid rt (env_or (env ''HTTP_PORT'') 3000) \<longrightarrow>
        (\<exists>cfg. snd (toplevel rt env) = Inr cfg
           \<and> CALENDAR_ID cfg = cid \<and> API_KEY cfg = key
           \<and> fst (toplevel rt env) =
               [SetLogLevel (LOG_VERBOSITY cfg), Listen (HTTP_PORT cfg), RouteGet ''/events'',
                SetInterval (SECONDS_BETWEEN_CACHE_REFRESH cfg), CalendarClient key]))"
  by (auto simp: toplevel_def precondition_checks_def Let_def split: option.splits)

theorem toplevel_rejects_only_undefined_witness:
  "\<not> isl (precondition_checks (Map.empty(''CALENDAR_ID'' \<mapsto> [], ''API_KEY'' \<mapsto> [])))
   \<and> precondition_checks (Map.empty(''CALENDAR_ID'' \<mapsto> [], ''API_KEY'' \<mapsto> [])) = Inr ([], [])
   \<and> level_known example_runtime
        (env_or_string ((Map.empty(''CALENDAR_ID'' \<mapsto> [], ''API_KEY'' \<mapsto> [])) ''LOG_VERBOSITY'') ''info'')
   \<and> port_valid example_runtime
        (env_or ((Map.empty(''CALENDAR_ID'' \<mapsto> [], ''API_KEY'' \<mapsto> [])) ''HTTP_PORT'') 3000)
   \<and> (\<exists>cfg. snd (toplevel example_runtime
                 (Map.empty(''CALENDAR_ID'' \<mapsto> [], ''API_KEY'' \<mapsto> []))) = Inr cfg
        \<and> CALENDAR_ID cfg = [] \<and> API_KEY cfg = []
        \<and> fst (toplevel example_runtime
                 (Map.empty(''CALENDAR_ID'' \<mapsto> [], ''API_KEY'' \<mapsto> []))) =
            [SetLogLevel ''info'', Listen (Default 3000), RouteGet ''/events'',
             SetInterval (Default 60), CalendarClient []])"
  using toplevel_rejects_only_undefined
    [of "Map.empty(''CALENDAR_ID'' \<mapsto> [], ''API_KEY'' \<mapsto> [])" "[]" "[]" example_runtime]
  by (simp add: toplevel_def precondition_checks_def env_or_def env_or_string_def)

end
